theory Spec2Isabelle
  imports Main
begin

section \<open>Errors and attribute reads\<close>

text \<open>
  The exceptions that \<^verbatim>\<open>conda/models/index_record.py\<close> raises, lets escape or catches.
  A fallible operation returns \<open>error + 'a\<close>, with \<open>Inl\<close> for the raised exception.
\<close>

datatype error = AttributeError | AssertionError | TypeError | ValueError | ValidationError

text \<open>
  The outcome of reading a field of an instance through the field framework's
  \<^verbatim>\<open>__get__\<close>: \<open>Unset\<close> is the read that raises \<^verbatim>\<open>AttributeError\<close> (no value was ever
  stored, or the class has no such attribute), \<open>Stored v\<close> the read that returns \<open>v\<close>.
  A nullable field stores an \<open>option\<close>, \<open>None\<close> being Python's \<^verbatim>\<open>None\<close>.
\<close>

datatype 'a attr = Unset | Stored 'a

section \<open>Priority\<close>

text \<open>
  \<^verbatim>\<open>class Priority\<close> (lines 34-50) wraps the rank given to \<^verbatim>\<open>__init__\<close>;
  \<^verbatim>\<open>__int__\<close> returns it.
\<close>

datatype Priority = Priority (p_priority: int)

definition Priority_int :: "Priority \<Rightarrow> int" where
  "Priority_int self = p_priority self"

text \<open>
  The right-hand operands of a comparison: an integer, another Priority, a text, or
  \<^verbatim>\<open>None\<close>. The built-in \<^verbatim>\<open>int(other)\<close> returns an integer unchanged, calls
  \<^verbatim>\<open>__int__\<close> of a Priority, raises \<^verbatim>\<open>TypeError\<close> on \<^verbatim>\<open>None\<close>, and on a text
  either reads an integer literal or raises \<^verbatim>\<open>ValueError\<close>. The reading of literals
  belongs to the Python runtime and is the parameter \<open>int_str\<close>.
\<close>

datatype operand = PyInt int | PyPriority Priority | PyStr string | PyNone

definition py_int :: "(string \<Rightarrow> int option) \<Rightarrow> operand \<Rightarrow> error + int" where
  "py_int int_str other =
     (case other of
        PyInt i \<Rightarrow> Inr i
      | PyPriority p \<Rightarrow> Inr (Priority_int p)
      | PyStr s \<Rightarrow> (case int_str s of Some i \<Rightarrow> Inr i | None \<Rightarrow> Inl ValueError)
      | PyNone \<Rightarrow> Inl TypeError)"

definition Priority_lt :: "(string \<Rightarrow> int option) \<Rightarrow> Priority \<Rightarrow> operand \<Rightarrow> error + bool" where
  "Priority_lt int_str self other =
     (case py_int int_str other of Inl e \<Rightarrow> Inl e | Inr n \<Rightarrow> Inr (p_priority self < n))"

definition Priority_eq :: "(string \<Rightarrow> int option) \<Rightarrow> Priority \<Rightarrow> operand \<Rightarrow> error + bool" where
  "Priority_eq int_str self other =
     (case py_int int_str other of Inl e \<Rightarrow> Inl e | Inr n \<Rightarrow> Inr (p_priority self = n))"




text \<open>
  A reader of decimal literals in the way of \<^verbatim>\<open>int\<close> on ASCII text, used where a
  statement is evaluated and \<open>int_str\<close> must be a concrete function: white space
  around the literal is dropped, a sign may come first, and the digits may be grouped by
  single underscores. Digits outside ASCII, which \<^verbatim>\<open>int\<close> also reads, are not read.
\<close>

definition digit_val :: "char \<Rightarrow> int option" where
  "digit_val c = map_of (zip ''0123456789'' [0, 1, 2, 3, 4, 5, 6, 7, 8, 9]) c"

definition ascii_space :: "char \<Rightarrow> bool" where
  "ascii_space c = (c \<in> set [CHR '' '', CHR 0x09, CHR 0x0A, CHR 0x0B, CHR 0x0C, CHR 0x0D])"

definition strip :: "string \<Rightarrow> string" where
  "strip s = rev (dropWhile ascii_space (rev (dropWhile ascii_space s)))"

fun read_digits :: "string \<Rightarrow> int list option" where
  "read_digits [] = None"
| "read_digits [c] = map_option (\<lambda>d. [d]) (digit_val c)"
| "read_digits (c # c' # cs) =
     (case digit_val c of
        None \<Rightarrow> None
      | Some d \<Rightarrow>
          if c' = CHR ''_'' then map_option (Cons d) (read_digits cs)
          else map_option (Cons d) (read_digits (c' # cs)))"

definition decimal_literal :: "string \<Rightarrow> int option" where
  "decimal_literal s =
     (case strip s of
        [] \<Rightarrow> None
      | c # cs \<Rightarrow>
          if c = CHR ''-''
          then map_option (\<lambda>ds. - foldl (\<lambda>a d. 10 * a + d) 0 ds) (read_digits cs)
          else if c = CHR ''+''
          then map_option (foldl (\<lambda>a d. 10 * a + d) 0) (read_digits cs)
          else map_option (foldl (\<lambda>a d. 10 * a + d) 0) (read_digits (c # cs)))"

section \<open>Text helpers\<close>

text \<open>
  Python's truth value of an optional text: \<^verbatim>\<open>None\<close> and the empty text are false.
\<close>

definition truthy :: "string option \<Rightarrow> bool" where
  "truthy v = (case v of None \<Rightarrow> False | Some s \<Rightarrow> s \<noteq> [])"

text \<open>\<^verbatim>\<open>sub in s\<close> on texts: \<open>sub\<close> occurs in \<open>s\<close> as a contiguous piece.\<close>

fun contains :: "string \<Rightarrow> string \<Rightarrow> bool" where
  "contains sub [] = (sub = [])"
| "contains sub (c # cs) = (take (length sub) (c # cs) = sub \<or> contains sub cs)"

text \<open>
  \<^verbatim>\<open>s.split(sep)\<close> with a one-character separator: every occurrence of the separator
  ends a piece, so two adjacent separators enclose an empty piece and the empty text
  splits into one empty piece.
\<close>

fun split_char :: "char \<Rightarrow> string \<Rightarrow> string list" where
  "split_char sep [] = [[]]"
| "split_char sep (c # cs) =
     (if c = sep then [] # split_char sep cs
      else (case split_char sep cs of [] \<Rightarrow> [[c]] | w # ws \<Rightarrow> (c # w) # ws))"

text \<open>\<^verbatim>\<open>sep.join(xs)\<close>.\<close>

fun join :: "string \<Rightarrow> string list \<Rightarrow> string" where
  "join sep [] = []"
| "join sep [x] = x"
| "join sep (x # y # ys) = x @ sep @ join sep (y # ys)"

text \<open>\<^verbatim>\<open>s.replace(a, b)\<close> where \<open>a\<close> is one character and \<open>b\<close> any text.\<close>

definition replace_char :: "char \<Rightarrow> string \<Rightarrow> string \<Rightarrow> string" where
  "replace_char a b s = concat (map (\<lambda>c. if c = a then b else [c]) s)"

section \<open>Collaborators outside this module\<close>

text \<open>
  The module imports \<^verbatim>\<open>Channel\<close> from \<^verbatim>\<open>conda/models/channel.py\<close> and \<^verbatim>\<open>context\<close>
  from \<^verbatim>\<open>conda/base/context.py\<close>. What it uses of them is a parameter of every
  definition below: the constructor \<^verbatim>\<open>Channel(url)\<close> (the argument may be
  \<^verbatim>\<open>None\<close>), the channel attributes \<^verbatim>\<open>canonical_name\<close>, \<^verbatim>\<open>subdir\<close> and
  \<^verbatim>\<open>package_filename\<close> (the last two may be \<^verbatim>\<open>None\<close>), and \<^verbatim>\<open>context.subdir\<close>.
\<close>

record 'ch collaborators =
  Channel :: "string option \<Rightarrow> 'ch"
  canonical_name :: "'ch \<Rightarrow> string"
  Channel_subdir :: "'ch \<Rightarrow> string option"
  package_filename :: "'ch \<Rightarrow> string option"
  context_subdir :: string

section \<open>Records\<close>

text \<open>
  \<^verbatim>\<open>BasePackageRef\<close> (lines 200-204): four required fields, present in every
  constructed instance.
\<close>

record BasePackageRef =
  name :: string
  version :: string
  build :: string
  build_number :: int

text \<open>
  \<^verbatim>\<open>PackageRef\<close> (lines 207-216). \<^verbatim>\<open>channel\<close>, \<^verbatim>\<open>subdir\<close> and \<^verbatim>\<open>fn\<close> hold what
  the inherited \<^verbatim>\<open>__get__\<close> of the field finds in the instance; \<^verbatim>\<open>md5\<close> has the
  default \<^verbatim>\<open>None\<close>; \<^verbatim>\<open>url\<close> is optional and nullable, without default.
\<close>

record 'ch PackageRef = BasePackageRef +
  channel :: "'ch attr"
  subdir :: "string attr"
  fn :: "string attr"
  md5 :: "string option"
  url :: "string option attr"

text \<open>
  \<^verbatim>\<open>PackageRecord(IndexJsonRecord, PackageRef)\<close> (lines 236-279): the fields of
  \<^verbatim>\<open>PackageRef\<close>, those of \<^verbatim>\<open>IndexJsonRecord\<close> and its own. \<^verbatim>\<open>platform\<close> holds the
  \<^verbatim>\<open>name\<close> of the stored \<^verbatim>\<open>Platform\<close> member, which is all the module reads of it;
  the other enum fields hold the member's spelling. \<^verbatim>\<open>constrains\<close> is \<open>constrains_specs\<close> and
  \<^verbatim>\<open>size\<close> is \<open>size_bytes\<close> here.
\<close>

record 'ch PackageRecord = "'ch PackageRef" +
  arch :: "string option attr"
  platform :: "string option attr"
  depends :: "string list"
  constrains_specs :: "string list"
  features :: "string list"
  track_features :: "string list"
  noarch :: "string option"
  preferred_env :: "string option"
  license :: "string attr"
  license_family :: "string attr"
  date :: "string attr"
  priority :: "int attr"
  size_bytes :: "int attr"
  package_type :: "string option attr"

section \<open>Derived fields\<close>

text \<open>
  \<^verbatim>\<open>ChannelField.__get__\<close> (lines 110-118). \<open>stored\<close> is the outcome of the inherited
  \<^verbatim>\<open>__get__\<close>, \<open>url_read\<close> the outcome of \<^verbatim>\<open>instance.url\<close>.
\<close>

definition ChannelField_get ::
    "'ch collaborators \<Rightarrow> 'ch attr \<Rightarrow> string option attr \<Rightarrow> 'ch" where
  "ChannelField_get E stored url_read =
     (case stored of
        Stored c \<Rightarrow> c
      | Unset \<Rightarrow> (case url_read of Stored u \<Rightarrow> Channel E u | Unset \<Rightarrow> Channel E None))"

text \<open>
  The url test of line 134 fails: the read raised, or gave \<^verbatim>\<open>None\<close> or the empty
  text.
\<close>

definition no_url :: "string option attr \<Rightarrow> bool" where
  "no_url url_read = (url_read = Unset \<or> url_read = Stored None \<or> url_read = Stored (Some []))"

text \<open>Lines 144-145: the architecture token written into the subdir.\<close>

definition arch_token :: "string \<Rightarrow> string" where
  "arch_token a =
     (if contains ''x86'' a then (if contains ''64'' a then ''64'' else ''32'') else a)"

text \<open>
  \<^verbatim>\<open>SubdirField.__get__\<close> (lines 126-148). \<open>platform_read\<close> is the outcome of
  \<^verbatim>\<open>instance.platform\<close> and \<open>arch_read\<close> that of \<^verbatim>\<open>instance.arch\<close>; the single
  \<^verbatim>\<open>try\<close> of lines 137-140 sets both \<^verbatim>\<open>platform\<close> and \<^verbatim>\<open>arch\<close> to \<^verbatim>\<open>None\<close> when
  either read raises or when the platform is \<^verbatim>\<open>None\<close> (which has no \<^verbatim>\<open>name\<close>).
  The result is \<open>None\<close> when the channel of the url has no subdir.
\<close>

definition platform_arch ::
    "string option attr \<Rightarrow> string option attr \<Rightarrow> string option \<times> string option" where
  "platform_arch platform_read arch_read =
     (case platform_read of
        Unset \<Rightarrow> (None, None)
      | Stored None \<Rightarrow> (None, None)
      | Stored (Some p) \<Rightarrow>
          (case arch_read of Unset \<Rightarrow> (None, None) | Stored a \<Rightarrow> (Some p, a)))"

definition SubdirField_get ::
    "'ch collaborators \<Rightarrow> string attr \<Rightarrow> string option attr \<Rightarrow> string option attr
       \<Rightarrow> string option attr \<Rightarrow> string option" where
  "SubdirField_get E stored url_read platform_read arch_read =
     (case stored of
        Stored s \<Rightarrow> Some s
      | Unset \<Rightarrow>
          (let url = (case url_read of Unset \<Rightarrow> None | Stored u \<Rightarrow> u)
           in if truthy url then Channel_subdir E (Channel E url)
              else
                (case platform_arch platform_read arch_read of
                   (Some p, Some a) \<Rightarrow>
                     if truthy (Some p) \<and> \<not> truthy (Some a) then Some ''noarch''
                     else if truthy (Some p) then Some (p @ ''-'' @ arch_token a)
                     else Some (context_subdir E)
                 | (Some p, None) \<Rightarrow>
                     if truthy (Some p) then Some ''noarch'' else Some (context_subdir E)
                 | (None, _) \<Rightarrow> Some (context_subdir E))))"

text \<open>
  \<^verbatim>\<open>FilenameField.__get__\<close> (lines 156-168). The \<^verbatim>\<open>AttributeError\<close> of a failed
  \<^verbatim>\<open>instance.url\<close> and the one raised at line 164 for an empty extraction both lead
  to line 166; line 167 is the assertion.
\<close>

definition FilenameField_get ::
    "'ch collaborators \<Rightarrow> string attr \<Rightarrow> string option attr \<Rightarrow> string \<Rightarrow> string \<Rightarrow> string
       \<Rightarrow> error + string" where
  "FilenameField_get E stored url_read nm ver bld =
     (case stored of
        Stored s \<Rightarrow> Inr s
      | Unset \<Rightarrow>
          (let synthesized = nm @ ''-'' @ ver @ ''-'' @ bld;
               f = (case url_read of
                      Unset \<Rightarrow> synthesized
                    | Stored u \<Rightarrow>
                        (case package_filename E (Channel E u) of
                           None \<Rightarrow> synthesized
                         | Some x \<Rightarrow> if x = [] then synthesized else x))
           in if f = [] then Inl AssertionError else Inr f))"

section \<open>Identity: the key, equality and hash\<close>

text \<open>
  The descriptors as the classes carry them. \<^verbatim>\<open>PackageRef\<close> declares no
  \<^verbatim>\<open>platform\<close> and no \<^verbatim>\<open>arch\<close>, so on a bare \<^verbatim>\<open>PackageRef\<close> both reads of line 138
  raise \<^verbatim>\<open>AttributeError\<close>.
\<close>

definition PackageRef_channel :: "'ch collaborators \<Rightarrow> ('ch, 'z) PackageRef_scheme \<Rightarrow> 'ch" where
  "PackageRef_channel E r = ChannelField_get E (channel r) (url r)"

definition PackageRef_subdir :: "'ch collaborators \<Rightarrow> 'ch PackageRef \<Rightarrow> string option" where
  "PackageRef_subdir E r = SubdirField_get E (subdir r) (url r) Unset Unset"

definition PackageRecord_subdir :: "'ch collaborators \<Rightarrow> 'ch PackageRecord \<Rightarrow> string option" where
  "PackageRecord_subdir E r = SubdirField_get E (subdir r) (url r) (platform r) (arch r)"

definition PackageRef_fn ::
    "'ch collaborators \<Rightarrow> ('ch, 'z) PackageRef_scheme \<Rightarrow> error + string" where
  "PackageRef_fn E r = FilenameField_get E (fn r) (url r) (name r) (version r) (build r)"

text \<open>
  \<^verbatim>\<open>_pkey\<close> (lines 222-224), on the two classes that inherit it. The tuple is
  (channel canonical name, subdir, name, version, build).
\<close>

type_synonym pkey = "string \<times> string option \<times> string \<times> string \<times> string"

datatype 'ch package = Ref "'ch PackageRef" | Rec "'ch PackageRecord"

definition pkey :: "'ch collaborators \<Rightarrow> 'ch package \<Rightarrow> pkey" where
  "pkey E self =
     (case self of
        Ref r \<Rightarrow>
          (canonical_name E (PackageRef_channel E r), PackageRef_subdir E r,
           name r, version r, build r)
      | Rec r \<Rightarrow>
          (canonical_name E (PackageRef_channel E r), PackageRecord_subdir E r,
           name r, version r, build r))"

text \<open>
  A Python value on the right of \<^verbatim>\<open>==\<close>: a package, or \<open>Other\<close>, any value without
  the attribute \<^verbatim>\<open>_pkey\<close> (\<^verbatim>\<open>None\<close>, a text, a number, a dict). Reading
  \<^verbatim>\<open>other._pkey\<close> raises \<^verbatim>\<open>AttributeError\<close> on the latter.
\<close>

datatype 'ch pyobj = Package "'ch package" | Other

definition getattr_pkey :: "'ch collaborators \<Rightarrow> 'ch pyobj \<Rightarrow> error + pkey" where
  "getattr_pkey E other =
     (case other of Package p \<Rightarrow> Inr (pkey E p) | Other \<Rightarrow> Inl AttributeError)"

text \<open>
  \<^verbatim>\<open>__hash__\<close> (lines 226-227) and \<^verbatim>\<open>__eq__\<close> (lines 229-230). The built-in
  \<^verbatim>\<open>hash\<close> on tuples is the parameter \<open>hash\<close>.
\<close>

definition PackageRef_hash :: "(pkey \<Rightarrow> int) \<Rightarrow> 'ch collaborators \<Rightarrow> 'ch package \<Rightarrow> int" where
  "PackageRef_hash hash E self = hash (pkey E self)"

definition PackageRef_eq :: "'ch collaborators \<Rightarrow> 'ch package \<Rightarrow> 'ch pyobj \<Rightarrow> error + bool" where
  "PackageRef_eq E self other =
     (case getattr_pkey E other of Inl e \<Rightarrow> Inl e | Inr k \<Rightarrow> Inr (pkey E self = k))"

section \<open>Feature sets\<close>

text \<open>
  The values a features field is given or holds: \<^verbatim>\<open>None\<close>, one text, or a sequence of
  texts.
\<close>

datatype features_val = FNone | FStr string | FSeq "string list"

text \<open>
  Modelled from the spec: \<^verbatim>\<open>ListField.box\<close> of the field framework
  (\<^verbatim>\<open>conda/_vendor/auxlib/entity.py\<close>), which is not part of this module. Section 4.1
  of the spec says that the value is stored "as an ordered sequence, preserving
  duplicates and order"; \<^verbatim>\<open>None\<close> is left to the nullable check, and a text is not a
  sequence.
\<close>

definition ListField_box :: "features_val \<Rightarrow> error + features_val" where
  "ListField_box val =
     (case val of
        FNone \<Rightarrow> Inr FNone
      | FStr s \<Rightarrow> Inl ValidationError
      | FSeq xs \<Rightarrow> Inr (FSeq xs))"

text \<open>
  \<^verbatim>\<open>FeaturesField.box\<close> (lines 89-92): a text has every space replaced by a comma and
  is split at the commas; the result, or the value that was no text, goes to
  \<^verbatim>\<open>ListField.box\<close>.
\<close>

definition FeaturesField_box :: "features_val \<Rightarrow> error + features_val" where
  "FeaturesField_box val =
     ListField_box
       (case val of
          FStr s \<Rightarrow> FSeq (split_char CHR '','' (replace_char CHR '' '' '','' s))
        | _ \<Rightarrow> val)"

text \<open>
  \<^verbatim>\<open>FeaturesField.dump\<close> (lines 94-98). \<^verbatim>\<open>isiterable\<close> holds of a sequence and not
  of a text; \<^verbatim>\<open>val or ''\<close> is the text itself, and the empty text for \<^verbatim>\<open>None\<close>.
\<close>

definition FeaturesField_dump :: "features_val \<Rightarrow> string" where
  "FeaturesField_dump val =
     (case val of FSeq xs \<Rightarrow> join '' '' xs | FStr s \<Rightarrow> s | FNone \<Rightarrow> [])"

section \<open>Link types\<close>

text \<open>
  \<^verbatim>\<open>str.lower\<close> on texts of ASCII characters: the capital letters are mapped to the
  small ones, every other character is kept.
\<close>

definition ascii_uppercase :: string where
  "ascii_uppercase = ''ABCDEFGHIJKLMNOPQRSTUVWXYZ''"

definition ascii_lowercase :: string where
  "ascii_lowercase = ''abcdefghijklmnopqrstuvwxyz''"

definition lower_char :: "char \<Rightarrow> char" where
  "lower_char c =
     (case map_of (zip ascii_uppercase ascii_lowercase) c of None \<Rightarrow> c | Some d \<Rightarrow> d)"

definition lower :: "string \<Rightarrow> string" where
  "lower s = map lower_char s"

text \<open>
  The values a link-type field is given: \<^verbatim>\<open>None\<close>, a text, a member of the enum
  \<^verbatim>\<open>LinkType\<close>, or a number. The enum (\<^verbatim>\<open>conda/models/enums.py\<close>) and the inherited
  \<^verbatim>\<open>EnumField.box\<close> are not part of this module: the type of members is \<open>'lt\<close>, and
  the members \<^verbatim>\<open>LinkType.hardlink\<close>, \<^verbatim>\<open>LinkType.softlink\<close> and the inherited
  \<^verbatim>\<open>box\<close> are parameters.
\<close>

datatype 'lt link_val = LNone | LStr string | LMember 'lt | LInt int

text \<open>Line 63: the text with hyphens and underscores removed, in lower case.\<close>

definition link_text :: "string \<Rightarrow> string" where
  "link_text s = lower (replace_char CHR ''_'' [] (replace_char CHR ''-'' [] s))"

text \<open>\<^verbatim>\<open>LinkTypeField.box\<close> (lines 61-68).\<close>

definition LinkTypeField_box ::
    "('lt link_val \<Rightarrow> error + 'lt option) \<Rightarrow> 'lt \<Rightarrow> 'lt \<Rightarrow> 'lt link_val \<Rightarrow> error + 'lt option" where
  "LinkTypeField_box EnumField_box hardlink softlink val =
     EnumField_box
       (case val of
          LStr s \<Rightarrow>
            (let v = link_text s
             in if v = ''hard'' then LMember hardlink
                else if v = ''soft'' then LMember softlink
                else LStr v)
        | _ \<Rightarrow> val)"

text \<open>
  Modelled from the spec: the enum of link types and the strict matching of
  \<^verbatim>\<open>EnumField.box\<close>, which are not part of this module. Sections 4.1 and 7 of the spec
  say that strict matching accepts the canonical spelling of a member and that an
  unrecognised value "fails with an invalid-enum-value error"; the members are those
  of \<^verbatim>\<open>conda/models/enums.py\<close>, numbered from 1. This instance is used to evaluate
  statements at concrete inputs.
\<close>

datatype LinkType = hardlink | softlink | copy | directory

definition LinkType_members :: "(string \<times> int \<times> LinkType) list" where
  "LinkType_members =
     [(''hardlink'', 1, hardlink), (''softlink'', 2, softlink), (''copy'', 3, copy),
      (''directory'', 4, directory)]"

definition strict_enum_box :: "LinkType link_val \<Rightarrow> error + LinkType option" where
  "strict_enum_box val =
     (case val of
        LNone \<Rightarrow> Inr None
      | LMember m \<Rightarrow> Inr (Some m)
      | LInt i \<Rightarrow>
          (case filter (\<lambda>(n, v, m). v = i) LinkType_members of
             [] \<Rightarrow> Inl ValidationError
           | (n, v, m) # _ \<Rightarrow> Inr (Some m))
      | LStr s \<Rightarrow>
          (case filter (\<lambda>(n, v, m). n = s) LinkType_members of
             [] \<Rightarrow> Inl ValidationError
           | (n, v, m) # _ \<Rightarrow> Inr (Some m)))"

section \<open>Dependency merge\<close>











section \<open>Concrete collaborators and records for evaluation\<close>

text \<open>
  Modelled from the spec: the URL-to-channel parser and the default configuration,
  which are not part of this module. The spec (sections 1 and 6) says of them only that
  the parser exposes a canonical name, a subdir and a filename extraction, and that the
  configuration provides a default subdirectory. This instance reads a url ending in
  \<^verbatim>\<open>/<subdir>/<file>.tar.bz2\<close>; it is used only to evaluate statements at concrete
  inputs, and every general statement below holds for all collaborators.
\<close>

record url_channel =
  uc_name :: string
  uc_subdir :: "string option"
  uc_filename :: "string option"

definition ends_with :: "string \<Rightarrow> string \<Rightarrow> bool" where
  "ends_with suf s = (length suf \<le> length s \<and> drop (length s - length suf) s = suf)"

definition url_Channel :: "string option \<Rightarrow> url_channel" where
  "url_Channel u =
     (case u of
        None \<Rightarrow> \<lparr>uc_name = ''<unknown>'', uc_subdir = None, uc_filename = None\<rparr>
      | Some s \<Rightarrow>
          (case rev (split_char CHR ''/'' s) of
             file # dir # base \<Rightarrow>
               if ends_with ''.tar.bz2'' file
               then \<lparr>uc_name = join ''/'' (rev base), uc_subdir = Some dir,
                     uc_filename = Some file\<rparr>
               else \<lparr>uc_name = s, uc_subdir = None, uc_filename = None\<rparr>
           | _ \<Rightarrow> \<lparr>uc_name = s, uc_subdir = None, uc_filename = None\<rparr>))"

definition example_collaborators :: "url_channel collaborators" where
  "example_collaborators =
     \<lparr>Channel = url_Channel, canonical_name = uc_name, Channel_subdir = uc_subdir,
      package_filename = uc_filename, context_subdir = ''osx-64''\<rparr>"

definition example_ref :: "url_channel PackageRef" where
  "example_ref =
     \<lparr>name = ''numpy'', version = ''1.2'', build = ''0'', build_number = 0,
      channel = Unset, subdir = Unset, fn = Unset, md5 = None, url = Unset\<rparr>"

definition example_record :: "url_channel PackageRecord" where
  "example_record =
     \<lparr>name = ''numpy'', version = ''1.2'', build = ''0'', build_number = 0,
      channel = Unset, subdir = Unset, fn = Unset, md5 = None, url = Unset,
      arch = Unset, platform = Unset, depends = [], constrains_specs = [],
      features = [], track_features = [], noarch = None, preferred_env = None,
      license = Unset, license_family = Unset, date = Unset, priority = Unset,
      size_bytes = Unset, package_type = Unset\<rparr>"

section \<open>Properties of Priority\<close>










text \<open>
  C10. When the right-hand operand does not convert to an integer, \<^verbatim>\<open>==\<close> and
  \<^verbatim>\<open><\<close> of Priority both raise the conversion's error and return no truth value:
  \<^verbatim>\<open>TypeError\<close> for \<^verbatim>\<open>None\<close>, \<^verbatim>\<open>ValueError\<close> for a text that is no integer literal.
\<close>

theorem Priority_compare_unconvertible:
  "(py_int f other = Inl e \<longrightarrow>
      Priority_lt f self other = Inl e \<and> Priority_eq f self other = Inl e)
   \<and> Priority_lt f self PyNone = Inl TypeError
   \<and> Priority_eq f self PyNone = Inl TypeError
   \<and> (f s = None \<longrightarrow>
        Priority_lt f self (PyStr s) = Inl ValueError
        \<and> Priority_eq f self (PyStr s) = Inl ValueError)"
  by (simp add: Priority_lt_def Priority_eq_def py_int_def)

theorem Priority_compare_unconvertible_witness:
  "py_int decimal_literal (PyStr ''high'') = Inl ValueError
   \<and> decimal_literal ''high'' = None
   \<and> Priority_lt decimal_literal (Priority 3) (PyStr ''high'') = Inl ValueError
   \<and> Priority_eq decimal_literal (Priority 3) (PyStr ''high'') = Inl ValueError"
  using Priority_compare_unconvertible
    [of decimal_literal "PyStr ''high''" ValueError "Priority 3" "''high''"]
  by (simp add: py_int_def decimal_literal_def digit_val_def strip_def ascii_space_def)

section \<open>Properties of identity\<close>

lemma PackageRef_eq_Package:
  "PackageRef_eq E a (Package b) = Inr (pkey E a = pkey E b)"
  by (simp add: PackageRef_eq_def getattr_pkey_def)

lemma PackageRef_eq_Other: "PackageRef_eq E a Other = Inl AttributeError"
  by (simp add: PackageRef_eq_def getattr_pkey_def)

lemma pkey_Rec_other_fields:
  "pkey E (Rec (r\<lparr>md5 := m, build_number := bn, depends := ds, constrains_specs := cs,
        features := fs, track_features := tfs, noarch := na, preferred_env := pe,
        license := li, license_family := lf, date := d, priority := pr, size_bytes := sz,
        package_type := pt\<rparr>)) = pkey E (Rec r)"
  by (simp add: pkey_def PackageRef_channel_def PackageRecord_subdir_def)

lemma pkey_Rec_components:
  "pkey E (Rec r) =
     (canonical_name E (PackageRef_channel E r), PackageRecord_subdir E r,
      name r, version r, build r)"
  by (simp add: pkey_def)

lemma pkey_Rec_stored:
  "channel r = Stored c \<Longrightarrow> subdir r = Stored s \<Longrightarrow>
     pkey E (Rec r) = (canonical_name E c, Some s, name r, version r, build r)
     \<and> pkey E (Rec (r\<lparr>url := v\<rparr>)) = pkey E (Rec r)"
  by (simp add: pkey_def PackageRef_channel_def ChannelField_get_def PackageRecord_subdir_def
      SubdirField_get_def)

text \<open>
  C1. Two PackageRecord values compare equal and hash to the same value if and only if
  the five components of their identity keys agree: the canonical name of the channel,
  the subdir, the name, the version and the build; the comparison of two records never
  fails. The key is this 5-tuple, whose first component is the canonical name of the
  stored channel, or of the channel parsed from the url when no channel is stored, or of
  the channel of \<^verbatim>\<open>None\<close> when there is no url either. No other field is read: the
  key does not change when md5, build number, dependency lists, features, noarch,
  preferred environment, license, date, priority, size or package type are replaced,
  and, for a record that stores channel and subdir, when the url is replaced; the url
  matters only as the source of a channel or subdir that is not stored, that is, through
  the key itself.
\<close>

theorem PackageRecord_identity:
  "((PackageRef_eq E (Rec r1) (Package (Rec r2)) = Inr True
       \<and> PackageRef_hash h E (Rec r1) = PackageRef_hash h E (Rec r2))
      = (canonical_name E (PackageRef_channel E r1) = canonical_name E (PackageRef_channel E r2)
         \<and> PackageRecord_subdir E r1 = PackageRecord_subdir E r2
         \<and> name r1 = name r2 \<and> version r1 = version r2 \<and> build r1 = build r2))
   \<and> PackageRef_eq E (Rec r1) (Package (Rec r2))
       = Inr (canonical_name E (PackageRef_channel E r1) = canonical_name E (PackageRef_channel E r2)
              \<and> PackageRecord_subdir E r1 = PackageRecord_subdir E r2
              \<and> name r1 = name r2 \<and> version r1 = version r2 \<and> build r1 = build r2)
   \<and> pkey E (Rec r1)
       = (canonical_name E (PackageRef_channel E r1), PackageRecord_subdir E r1,
          name r1, version r1, build r1)
   \<and> (channel r1 = Stored c \<longrightarrow> PackageRef_channel E r1 = c)
   \<and> (channel r1 = Unset \<and> url r1 = Stored u \<longrightarrow> PackageRef_channel E r1 = Channel E u)
   \<and> (channel r1 = Unset \<and> url r1 = Unset \<longrightarrow> PackageRef_channel E r1 = Channel E None)
   \<and> (channel r1 = Stored c \<and> subdir r1 = Stored s
        \<longrightarrow> pkey E (Rec r1) = (canonical_name E c, Some s, name r1, version r1, build r1)
          \<and> pkey E (Rec (r1\<lparr>url := v\<rparr>)) = pkey E (Rec r1))
   \<and> pkey E (Rec (r1\<lparr>md5 := m, build_number := bn, depends := ds, constrains_specs := cs,
        features := fs, track_features := tfs, noarch := na, preferred_env := pe,
        license := li, license_family := lf, date := d, priority := pr, size_bytes := sz,
        package_type := pt\<rparr>)) = pkey E (Rec r1)"
proof -
  let ?same = "canonical_name E (PackageRef_channel E r1) = canonical_name E (PackageRef_channel E r2)
         \<and> PackageRecord_subdir E r1 = PackageRecord_subdir E r2
         \<and> name r1 = name r2 \<and> version r1 = version r2 \<and> build r1 = build r2"
  have keys: "(pkey E (Rec r1) = pkey E (Rec r2)) = ?same"
    by (simp add: pkey_Rec_components)
  have eq: "PackageRef_eq E (Rec r1) (Package (Rec r2)) = Inr ?same"
    by (simp only: PackageRef_eq_Package keys)
  have "?same \<Longrightarrow> PackageRef_hash h E (Rec r1) = PackageRef_hash h E (Rec r2)"
    by (simp add: PackageRef_hash_def pkey_Rec_components)
  then have iff: "(PackageRef_eq E (Rec r1) (Package (Rec r2)) = Inr True
       \<and> PackageRef_hash h E (Rec r1) = PackageRef_hash h E (Rec r2)) = ?same"
    unfolding eq by auto
  have ch: "channel r1 = Stored c \<longrightarrow> PackageRef_channel E r1 = c"
    "channel r1 = Unset \<and> url r1 = Stored u \<longrightarrow> PackageRef_channel E r1 = Channel E u"
    "channel r1 = Unset \<and> url r1 = Unset \<longrightarrow> PackageRef_channel E r1 = Channel E None"
    by (simp_all add: PackageRef_channel_def ChannelField_get_def)
  have st: "channel r1 = Stored c \<and> subdir r1 = Stored s
        \<longrightarrow> pkey E (Rec r1) = (canonical_name E c, Some s, name r1, version r1, build r1)
          \<and> pkey E (Rec (r1\<lparr>url := v\<rparr>)) = pkey E (Rec r1)"
    using pkey_Rec_stored [where r = r1 and c = c and s = s and E = E and v = v] by blast
  have oth: "pkey E (Rec (r1\<lparr>md5 := m, build_number := bn, depends := ds,
        constrains_specs := cs, features := fs, track_features := tfs, noarch := na,
        preferred_env := pe, license := li, license_family := lf, date := d, priority := pr,
        size_bytes := sz, package_type := pt\<rparr>)) = pkey E (Rec r1)"
    by (rule pkey_Rec_other_fields)
  from iff eq pkey_Rec_components [of E r1] ch st oth show ?thesis
    by (intro conjI)
qed

text \<open>
  Two records that store the same channel and subdir and have the same name, version and
  build, with different md5, url, size and date, are equal and hash identically; two
  records that store no channel and differ only in the url from which the channel is
  parsed have different keys and are not equal.
\<close>

theorem PackageRecord_identity_witness:
  "PackageRef_eq example_collaborators
      (Rec (example_record\<lparr>channel := Stored (url_Channel (Some ''defaults'')),
              subdir := Stored ''linux-64'', md5 := Some ''0f'',
              url := Stored (Some ''https://a/linux-64/numpy-1.2-0.tar.bz2''),
              size_bytes := Stored 10, date := Stored ''2017-01-01''\<rparr>))
      (Package (Rec (example_record\<lparr>channel := Stored (url_Channel (Some ''defaults'')),
              subdir := Stored ''linux-64'', md5 := Some ''a7'',
              url := Stored (Some ''https://b/osx-64/numpy-1.2-0.tar.bz2''),
              size_bytes := Stored 99, date := Stored ''2018-02-02''\<rparr>))) = Inr True
   \<and> PackageRef_hash (\<lambda>(c, s, n, v, b). int (length c + length n)) example_collaborators
      (Rec (example_record\<lparr>channel := Stored (url_Channel (Some ''defaults'')),
              subdir := Stored ''linux-64'', md5 := Some ''0f'',
              url := Stored (Some ''https://a/linux-64/numpy-1.2-0.tar.bz2''),
              size_bytes := Stored 10, date := Stored ''2017-01-01''\<rparr>))
     = PackageRef_hash (\<lambda>(c, s, n, v, b). int (length c + length n)) example_collaborators
      (Rec (example_record\<lparr>channel := Stored (url_Channel (Some ''defaults'')),
              subdir := Stored ''linux-64'', md5 := Some ''a7'',
              url := Stored (Some ''https://b/osx-64/numpy-1.2-0.tar.bz2''),
              size_bytes := Stored 99, date := Stored ''2018-02-02''\<rparr>))
   \<and> pkey example_collaborators
      (Rec (example_record\<lparr>channel := Stored (url_Channel (Some ''defaults'')),
              subdir := Stored ''linux-64'', md5 := Some ''0f'',
              url := Stored (Some ''https://a/linux-64/numpy-1.2-0.tar.bz2''),
              size_bytes := Stored 10, date := Stored ''2017-01-01''\<rparr>))
     = (''defaults'', Some ''linux-64'', ''numpy'', ''1.2'', ''0'')
   \<and> PackageRef_eq example_collaborators
      (Rec (example_record\<lparr>url := Stored (Some ''https://a/linux-64/numpy-1.2-0.tar.bz2'')\<rparr>))
      (Package (Rec (example_record\<lparr>url :=
          Stored (Some ''https://b/linux-64/numpy-1.2-0.tar.bz2'')\<rparr>))) = Inr False"
proof -
  let ?E = example_collaborators
  let ?h = "\<lambda>(c, s, n, v, b). int (length c + length n)"
  let ?c = "url_Channel (Some ''defaults'')"
  let ?r1 = "example_record\<lparr>channel := Stored ?c,
              subdir := Stored ''linux-64'', md5 := Some ''0f'',
              url := Stored (Some ''https://a/linux-64/numpy-1.2-0.tar.bz2''),
              size_bytes := Stored 10, date := Stored ''2017-01-01''\<rparr>"
  let ?r2 = "example_record\<lparr>channel := Stored ?c,
              subdir := Stored ''linux-64'', md5 := Some ''a7'',
              url := Stored (Some ''https://b/osx-64/numpy-1.2-0.tar.bz2''),
              size_bytes := Stored 99, date := Stored ''2018-02-02''\<rparr>"
  let ?ua = "Some ''https://a/linux-64/numpy-1.2-0.tar.bz2''"
  let ?ub = "Some ''https://b/linux-64/numpy-1.2-0.tar.bz2''"
  let ?r3 = "example_record\<lparr>url := Stored ?ua\<rparr>"
  let ?r4 = "example_record\<lparr>url := Stored ?ub\<rparr>"
  note t12 = PackageRecord_identity [of ?E ?r1 ?r2 ?h ?c _ "''linux-64''"]
  note t21 = PackageRecord_identity [of ?E ?r2 ?r1 ?h ?c _ "''linux-64''"]
  note t34 = PackageRecord_identity [of ?E ?r3 ?r4 ?h _ ?ua]
  note t43 = PackageRecord_identity [of ?E ?r4 ?r3 ?h _ ?ub]
  have s1: "channel ?r1 = Stored ?c \<and> subdir ?r1 = Stored ''linux-64''"
    by simp
  have s2: "channel ?r2 = Stored ?c \<and> subdir ?r2 = Stored ''linux-64''"
    by simp
  have n: "name ?r1 = ''numpy'' \<and> version ?r1 = ''1.2'' \<and> build ?r1 = ''0''
      \<and> name ?r2 = ''numpy'' \<and> version ?r2 = ''1.2'' \<and> build ?r2 = ''0''"
    by (simp add: example_record_def)
  have d: "canonical_name ?E ?c = ''defaults''"
    by (simp add: example_collaborators_def url_Channel_def)
  from t12 s1 have k1: "pkey ?E (Rec ?r1)
      = (canonical_name ?E ?c, Some ''linux-64'', name ?r1, version ?r1, build ?r1)"
    by blast
  from t21 s2 have k2: "pkey ?E (Rec ?r2)
      = (canonical_name ?E ?c, Some ''linux-64'', name ?r2, version ?r2, build ?r2)"
    by blast
  from k1 n d have k1': "pkey ?E (Rec ?r1)
      = (''defaults'', Some ''linux-64'', ''numpy'', ''1.2'', ''0'')"
    by simp
  from k2 n d have k2': "pkey ?E (Rec ?r2)
      = (''defaults'', Some ''linux-64'', ''numpy'', ''1.2'', ''0'')"
    by simp
  from t12 have c1: "pkey ?E (Rec ?r1)
      = (canonical_name ?E (PackageRef_channel ?E ?r1), PackageRecord_subdir ?E ?r1,
         name ?r1, version ?r1, build ?r1)"
    by blast
  from t21 have c2: "pkey ?E (Rec ?r2)
      = (canonical_name ?E (PackageRef_channel ?E ?r2), PackageRecord_subdir ?E ?r2,
         name ?r2, version ?r2, build ?r2)"
    by blast
  from c1 c2 k1' k2' have same: "canonical_name ?E (PackageRef_channel ?E ?r1)
        = canonical_name ?E (PackageRef_channel ?E ?r2)
      \<and> PackageRecord_subdir ?E ?r1 = PackageRecord_subdir ?E ?r2
      \<and> name ?r1 = name ?r2 \<and> version ?r1 = version ?r2 \<and> build ?r1 = build ?r2"
    by simp
  from t12 same have e12: "PackageRef_eq ?E (Rec ?r1) (Package (Rec ?r2)) = Inr True
      \<and> PackageRef_hash ?h ?E (Rec ?r1) = PackageRef_hash ?h ?E (Rec ?r2)"
    by blast
  have u3: "channel ?r3 = Unset \<and> url ?r3 = Stored ?ua"
    by (simp add: example_record_def)
  have u4: "channel ?r4 = Unset \<and> url ?r4 = Stored ?ub"
    by (simp add: example_record_def)
  from t34 u3 have ch3: "PackageRef_channel ?E ?r3 = Channel ?E ?ua"
    by blast
  from t43 u4 have ch4: "PackageRef_channel ?E ?r4 = Channel ?E ?ub"
    by blast
  have names: "canonical_name ?E (Channel ?E ?ua) = ''https://a''"
    "canonical_name ?E (Channel ?E ?ub) = ''https://b''"
    by (simp_all add: example_collaborators_def url_Channel_def ends_with_def)
  have diff: "canonical_name ?E (PackageRef_channel ?E ?r3)
      \<noteq> canonical_name ?E (PackageRef_channel ?E ?r4)"
    by (simp add: ch3 ch4 names)
  from t34 have "PackageRef_eq ?E (Rec ?r3) (Package (Rec ?r4))
      = Inr (canonical_name ?E (PackageRef_channel ?E ?r3)
              = canonical_name ?E (PackageRef_channel ?E ?r4)
            \<and> PackageRecord_subdir ?E ?r3 = PackageRecord_subdir ?E ?r4
            \<and> name ?r3 = name ?r4 \<and> version ?r3 = version ?r4 \<and> build ?r3 = build ?r4)"
    by blast
  with diff have e34: "PackageRef_eq ?E (Rec ?r3) (Package (Rec ?r4)) = Inr False"
    by simp
  from e12 k1' e34 show ?thesis
    by blast
qed

text \<open>
  C6. Comparing a package for equality with a value that has no identity key raises
  the \<^verbatim>\<open>AttributeError\<close> of the failed read of \<^verbatim>\<open>other._pkey\<close>; the comparison
  returns neither false nor true.
\<close>

theorem PackageRef_eq_no_key_fails:
  "PackageRef_eq E self Other = Inl AttributeError
   \<and> PackageRef_eq E self Other \<noteq> Inr False
   \<and> PackageRef_eq E self Other \<noteq> Inr True"
  by (simp add: PackageRef_eq_Other)

text \<open>
  C9. Equality and hash read nothing but the identity key: any two packages, whether
  bare references or full records, compare equal exactly when their keys are equal, with
  no failure and no check of the class, and two equal packages hash identically.
\<close>

theorem PackageRef_eq_hash_by_key_only:
  "PackageRef_eq E a (Package b) = Inr (pkey E a = pkey E b)
   \<and> PackageRef_hash h E a = h (pkey E a)
   \<and> (PackageRef_eq E a (Package b) = Inr True
        \<longrightarrow> PackageRef_hash h E a = PackageRef_hash h E b)"
  by (simp add: PackageRef_eq_Package PackageRef_hash_def)

text \<open>
  A bare reference and a full record with the same key: the reference stores channel and
  subdir, the record derives both from its url.
\<close>

theorem PackageRef_eq_hash_by_key_only_witness:
  "PackageRef_eq example_collaborators
      (Ref (example_ref\<lparr>channel := Stored (url_Channel (Some ''https://repo/linux-64/numpy-1.2-0.tar.bz2'')),
              subdir := Stored ''linux-64''\<rparr>))
      (Package (Rec (example_record\<lparr>url := Stored (Some ''https://repo/linux-64/numpy-1.2-0.tar.bz2'')\<rparr>)))
     = Inr True
   \<and> PackageRef_hash (\<lambda>(c, s, n, v, b). int (length c + length n)) example_collaborators
      (Ref (example_ref\<lparr>channel := Stored (url_Channel (Some ''https://repo/linux-64/numpy-1.2-0.tar.bz2'')),
              subdir := Stored ''linux-64''\<rparr>))
     = PackageRef_hash (\<lambda>(c, s, n, v, b). int (length c + length n)) example_collaborators
      (Rec (example_record\<lparr>url := Stored (Some ''https://repo/linux-64/numpy-1.2-0.tar.bz2'')\<rparr>))"
proof -
  let ?a = "Ref (example_ref\<lparr>channel := Stored (url_Channel (Some ''https://repo/linux-64/numpy-1.2-0.tar.bz2'')),
              subdir := Stored ''linux-64''\<rparr>)"
  let ?b = "Rec (example_record\<lparr>url := Stored (Some ''https://repo/linux-64/numpy-1.2-0.tar.bz2'')\<rparr>)"
  have u: "url_Channel (Some ''https://repo/linux-64/numpy-1.2-0.tar.bz2'')
      = \<lparr>uc_name = ''https://repo'', uc_subdir = Some ''linux-64'',
         uc_filename = Some ''numpy-1.2-0.tar.bz2''\<rparr>"
    by (simp add: url_Channel_def ends_with_def)
  have k: "pkey example_collaborators ?a = pkey example_collaborators ?b"
    by (simp add: pkey_def PackageRef_channel_def PackageRecord_subdir_def PackageRef_subdir_def
        ChannelField_get_def SubdirField_get_def example_record_def example_ref_def
        example_collaborators_def truthy_def u)
  let ?h = "\<lambda>(c, s, n, v, b). int (length c + length n)"
  note t = PackageRef_eq_hash_by_key_only [of example_collaborators ?a ?b ?h]
  from t have "PackageRef_eq example_collaborators ?a (Package ?b)
      = Inr (pkey example_collaborators ?a = pkey example_collaborators ?b)"
    by (rule conjunct1)
  with k have e: "PackageRef_eq example_collaborators ?a (Package ?b) = Inr True"
    by simp
  from t e have "PackageRef_hash ?h example_collaborators ?a
      = PackageRef_hash ?h example_collaborators ?b"
    by blast
  with e show ?thesis
    by (rule conjI)
qed

section \<open>Properties of the derived fields\<close>

lemma subdir_stored:
  "subdir r = Stored s \<Longrightarrow> PackageRecord_subdir E r = Some s"
  by (simp add: PackageRecord_subdir_def SubdirField_get_def)

lemma subdir_from_url:
  "subdir r = Unset \<Longrightarrow> url r = Stored (Some u) \<Longrightarrow> u \<noteq> []
     \<Longrightarrow> PackageRecord_subdir E r = Channel_subdir E (Channel E (Some u))"
  by (simp add: PackageRecord_subdir_def SubdirField_get_def truthy_def)

lemma subdir_no_url:
  "subdir r = Unset \<Longrightarrow> no_url (url r) \<Longrightarrow>
     PackageRecord_subdir E r =
       (case platform_arch (platform r) (arch r) of
          (Some p, Some a) \<Rightarrow>
            if p \<noteq> [] \<and> a = [] then Some ''noarch''
            else if p \<noteq> [] then Some (p @ ''-'' @ arch_token a)
            else Some (context_subdir E)
        | (Some p, None) \<Rightarrow> if p \<noteq> [] then Some ''noarch'' else Some (context_subdir E)
        | (None, _) \<Rightarrow> Some (context_subdir E))"
  by (auto simp: PackageRecord_subdir_def SubdirField_get_def truthy_def no_url_def
      split: prod.splits option.splits)

lemma subdir_noarch:
  "subdir r = Unset \<Longrightarrow> no_url (url r) \<Longrightarrow> platform r = Stored (Some p) \<Longrightarrow> p \<noteq> []
     \<Longrightarrow> arch r = Stored None \<or> arch r = Stored (Some [])
     \<Longrightarrow> PackageRecord_subdir E r = Some ''noarch''"
  by (auto simp: subdir_no_url platform_arch_def)

lemma subdir_platform_arch:
  "subdir r = Unset \<Longrightarrow> no_url (url r) \<Longrightarrow> platform r = Stored (Some p) \<Longrightarrow> p \<noteq> []
     \<Longrightarrow> arch r = Stored (Some a) \<Longrightarrow> a \<noteq> []
     \<Longrightarrow> PackageRecord_subdir E r = Some (p @ ''-'' @ arch_token a)"
  by (simp add: subdir_no_url platform_arch_def)

lemma subdir_default:
  "subdir r = Unset \<Longrightarrow> no_url (url r)
     \<Longrightarrow> platform r = Unset \<or> platform r = Stored None \<or> platform r = Stored (Some [])
          \<or> arch r = Unset
     \<Longrightarrow> PackageRecord_subdir E r = Some (context_subdir E)"
  by (auto simp: subdir_no_url platform_arch_def split: attr.splits option.splits)

lemma contains_x86_64: "contains ''x86'' ''x86_64''" "contains ''64'' ''x86_64''"
  by simp_all

text \<open>
  C3, as the code has it. The subdir accessor returns the first value of this chain: the
  stored value; else, if the url is a non-empty text, the subdir of the channel parsed
  from it; else, if platform is stored with a non-empty name and architecture is stored
  as \<^verbatim>\<open>None\<close> or as the empty text, \<^verbatim>\<open>noarch\<close>; else, if platform and architecture
  are both stored and non-empty, platform, a hyphen and the architecture token, where a
  token containing \<^verbatim>\<open>x86\<close> becomes \<^verbatim>\<open>64\<close> if it contains \<^verbatim>\<open>64\<close> and \<^verbatim>\<open>32\<close>
  otherwise, and any other token is unchanged; else the default subdirectory, which is
  also the result when platform is stored and no architecture was ever stored. With a
  parser that finds \<^verbatim>\<open>linux-64\<close> in the url of the example, that url resolves to
  \<^verbatim>\<open>linux-64\<close>; platform linux with architecture x86_64 resolves to \<^verbatim>\<open>linux-64\<close>;
  platform win with architecture \<^verbatim>\<open>None\<close> resolves to \<^verbatim>\<open>noarch\<close>.
\<close>

theorem subdir_fallback_chain:
  "(subdir r = Stored s \<longrightarrow> PackageRecord_subdir E r = Some s)
   \<and> (subdir r = Unset \<and> url r = Stored (Some u) \<and> u \<noteq> []
        \<longrightarrow> PackageRecord_subdir E r = Channel_subdir E (Channel E (Some u)))
   \<and> (subdir r = Unset \<and> no_url (url r) \<and> platform r = Stored (Some p) \<and> p \<noteq> []
          \<and> (arch r = Stored None \<or> arch r = Stored (Some []))
        \<longrightarrow> PackageRecord_subdir E r = Some ''noarch'')
   \<and> (subdir r = Unset \<and> no_url (url r) \<and> platform r = Stored (Some p) \<and> p \<noteq> []
          \<and> arch r = Stored (Some a) \<and> a \<noteq> []
        \<longrightarrow> PackageRecord_subdir E r = Some (p @ ''-'' @ arch_token a))
   \<and> (subdir r = Unset \<and> no_url (url r)
          \<and> (platform r = Unset \<or> platform r = Stored None \<or> platform r = Stored (Some [])
               \<or> arch r = Unset)
        \<longrightarrow> PackageRecord_subdir E r = Some (context_subdir E))
   \<and> (contains ''x86'' a \<and> contains ''64'' a \<longrightarrow> arch_token a = ''64'')
   \<and> (contains ''x86'' a \<and> \<not> contains ''64'' a \<longrightarrow> arch_token a = ''32'')
   \<and> (\<not> contains ''x86'' a \<longrightarrow> arch_token a = a)
   \<and> (subdir r = Unset \<and> url r = Stored (Some ''https://repo/linux-64/foo-1.0-0.tar.bz2'')
          \<and> Channel_subdir E (Channel E (Some ''https://repo/linux-64/foo-1.0-0.tar.bz2''))
              = Some ''linux-64''
        \<longrightarrow> PackageRecord_subdir E r = Some ''linux-64'')
   \<and> (subdir r = Unset \<and> no_url (url r) \<and> platform r = Stored (Some ''linux'')
          \<and> arch r = Stored (Some ''x86_64'')
        \<longrightarrow> PackageRecord_subdir E r = Some ''linux-64'')
   \<and> (subdir r = Unset \<and> no_url (url r) \<and> platform r = Stored (Some ''win'')
          \<and> arch r = Stored None
        \<longrightarrow> PackageRecord_subdir E r = Some ''noarch'')"
proof -
  have tok: "arch_token ''x86_64'' = ''64''"
    by (simp add: arch_token_def)
  have ex2: "subdir r = Unset \<and> no_url (url r) \<and> platform r = Stored (Some ''linux'')
          \<and> arch r = Stored (Some ''x86_64'')
        \<longrightarrow> PackageRecord_subdir E r = Some ''linux-64''"
    using subdir_platform_arch [of r "''linux''" "''x86_64''" E] by (simp add: tok)
  have ex3: "subdir r = Unset \<and> no_url (url r) \<and> platform r = Stored (Some ''win'')
          \<and> arch r = Stored None
        \<longrightarrow> PackageRecord_subdir E r = Some ''noarch''"
    using subdir_noarch [of r "''win''" E] by simp
  have ex1: "subdir r = Unset \<and> url r = Stored (Some ''https://repo/linux-64/foo-1.0-0.tar.bz2'')
          \<and> Channel_subdir E (Channel E (Some ''https://repo/linux-64/foo-1.0-0.tar.bz2''))
              = Some ''linux-64''
        \<longrightarrow> PackageRecord_subdir E r = Some ''linux-64''"
    using subdir_from_url [of r "''https://repo/linux-64/foo-1.0-0.tar.bz2''" E] by simp
  have toks: "contains ''x86'' a \<and> contains ''64'' a \<longrightarrow> arch_token a = ''64''"
    "contains ''x86'' a \<and> \<not> contains ''64'' a \<longrightarrow> arch_token a = ''32''"
    "\<not> contains ''x86'' a \<longrightarrow> arch_token a = a"
    by (simp_all add: arch_token_def)
  show ?thesis
    using subdir_stored [of r s E] subdir_from_url [of r u E] subdir_noarch [of r p E]
      subdir_platform_arch [of r p a E] subdir_default [of r E] toks ex1 ex2 ex3
    by blast
qed

lemma url_Channel_foo:
  "url_Channel (Some ''https://repo/linux-64/foo-1.0-0.tar.bz2'')
     = \<lparr>uc_name = ''https://repo'', uc_subdir = Some ''linux-64'',
        uc_filename = Some ''foo-1.0-0.tar.bz2''\<rparr>"
  by (simp add: url_Channel_def ends_with_def)

text \<open>
  The chain at five records: the url of the example, platform linux with architecture
  x86_64, platform win with architecture \<^verbatim>\<open>None\<close>, a stored subdir, and nothing stored.
\<close>

theorem subdir_fallback_chain_witness:
  "PackageRecord_subdir example_collaborators
      (example_record\<lparr>url := Stored (Some ''https://repo/linux-64/foo-1.0-0.tar.bz2'')\<rparr>)
     = Some ''linux-64''
   \<and> PackageRecord_subdir example_collaborators
      (example_record\<lparr>platform := Stored (Some ''linux''), arch := Stored (Some ''x86_64'')\<rparr>)
     = Some ''linux-64''
   \<and> PackageRecord_subdir example_collaborators
      (example_record\<lparr>platform := Stored (Some ''win''), arch := Stored None\<rparr>)
     = Some ''noarch''
   \<and> PackageRecord_subdir example_collaborators (example_record\<lparr>subdir := Stored ''win-32''\<rparr>)
     = Some ''win-32''
   \<and> PackageRecord_subdir example_collaborators example_record = Some ''osx-64''"
proof -
  let ?E = example_collaborators
  let ?u = "''https://repo/linux-64/foo-1.0-0.tar.bz2''"
  let ?r1 = "example_record\<lparr>url := Stored (Some ?u)\<rparr>"
  let ?r2 = "example_record\<lparr>platform := Stored (Some ''linux''), arch := Stored (Some ''x86_64'')\<rparr>"
  let ?r3 = "example_record\<lparr>platform := Stored (Some ''win''), arch := Stored None\<rparr>"
  let ?r4 = "example_record\<lparr>subdir := Stored ''win-32''\<rparr>"
  have h1: "subdir ?r1 = Unset \<and> url ?r1 = Stored (Some ?u)
      \<and> Channel_subdir ?E (Channel ?E (Some ?u)) = Some ''linux-64''"
    by (simp add: example_record_def example_collaborators_def url_Channel_foo)
  have h2: "subdir ?r2 = Unset \<and> no_url (url ?r2) \<and> platform ?r2 = Stored (Some ''linux'')
      \<and> arch ?r2 = Stored (Some ''x86_64'')"
    by (simp add: example_record_def no_url_def)
  have h3: "subdir ?r3 = Unset \<and> no_url (url ?r3) \<and> platform ?r3 = Stored (Some ''win'')
      \<and> arch ?r3 = Stored None"
    by (simp add: example_record_def no_url_def)
  have h4: "subdir ?r4 = Stored ''win-32''"
    by simp
  have h5: "subdir example_record = Unset \<and> no_url (url example_record)
      \<and> platform example_record = Unset"
    by (simp add: example_record_def no_url_def)
  have c5: "context_subdir ?E = ''osx-64''"
    by (simp add: example_collaborators_def)
  have "PackageRecord_subdir ?E ?r1 = Some ''linux-64''"
    using h1 subdir_fallback_chain [of ?r1 _ ?E] by blast
  moreover have "PackageRecord_subdir ?E ?r2 = Some ''linux-64''"
    using h2 subdir_fallback_chain [of ?r2 _ ?E] by blast
  moreover have "PackageRecord_subdir ?E ?r3 = Some ''noarch''"
    using h3 subdir_fallback_chain [of ?r3 _ ?E] by blast
  moreover have "PackageRecord_subdir ?E ?r4 = Some ''win-32''"
    using h4 subdir_fallback_chain [of ?r4 "''win-32''" ?E] by blast
  moreover have "PackageRecord_subdir ?E example_record = Some ''osx-64''"
    using h5 c5 subdir_fallback_chain [of example_record _ ?E] by metis
  ultimately show ?thesis
    by blast
qed

text \<open>
  The statement of the spec fails where platform is stored and no architecture was ever
  stored: the read of \<^verbatim>\<open>instance.arch\<close> at line 138 raises, line 140 sets both
  \<^verbatim>\<open>platform\<close> and \<^verbatim>\<open>arch\<close> to \<^verbatim>\<open>None\<close>, and line 148 returns the default
  subdirectory instead of \<^verbatim>\<open>noarch\<close>.
\<close>

theorem subdir_platform_without_arch_counterexample:
  "platform (example_record\<lparr>platform := Stored (Some ''win'')\<rparr>) = Stored (Some ''win'')
   \<and> arch (example_record\<lparr>platform := Stored (Some ''win'')\<rparr>) = Unset
   \<and> url (example_record\<lparr>platform := Stored (Some ''win'')\<rparr>) = Unset
   \<and> subdir (example_record\<lparr>platform := Stored (Some ''win'')\<rparr>) = Unset
   \<and> PackageRecord_subdir example_collaborators
        (example_record\<lparr>platform := Stored (Some ''win'')\<rparr>) = Some ''osx-64''
   \<and> PackageRecord_subdir example_collaborators
        (example_record\<lparr>platform := Stored (Some ''win'')\<rparr>) \<noteq> Some ''noarch''"
  by (simp add: example_record_def example_collaborators_def PackageRecord_subdir_def
      SubdirField_get_def platform_arch_def truthy_def)

lemma fn_stored: "fn r = Stored s \<Longrightarrow> PackageRef_fn E r = Inr s"
  by (simp add: PackageRef_fn_def FilenameField_get_def)

lemma fn_from_url:
  "fn r = Unset \<Longrightarrow> url r = Stored u \<Longrightarrow> package_filename E (Channel E u) = Some x \<Longrightarrow> x \<noteq> []
     \<Longrightarrow> PackageRef_fn E r = Inr x"
  by (simp add: PackageRef_fn_def FilenameField_get_def)

lemma fn_synthesized:
  "fn r = Unset \<Longrightarrow>
     url r = Unset
       \<or> (\<exists>u. url r = Stored u
             \<and> (package_filename E (Channel E u) = None
                  \<or> package_filename E (Channel E u) = Some []))
     \<Longrightarrow> PackageRef_fn E r = Inr (name r @ ''-'' @ version r @ ''-'' @ build r)"
  by (auto simp: PackageRef_fn_def FilenameField_get_def)

lemma fn_derived_nonempty:
  "fn r = Unset \<Longrightarrow> \<exists>f. PackageRef_fn E r = Inr f \<and> f \<noteq> []"
  by (auto simp: PackageRef_fn_def FilenameField_get_def Let_def
      split: attr.splits option.splits)

text \<open>
  C4, as the code has it. The filename accessor returns the first value of this chain:
  the stored value, as it is; else, if the url can be read, the package filename of the
  channel parsed from it, unless that is \<^verbatim>\<open>None\<close> or empty; else the text
  name-version-build. A filename that is not stored is never empty and the assertion of
  line 167 never fails. In particular name numpy, version 1.2, build 0, with neither url
  nor filename stored, give \<^verbatim>\<open>numpy-1.2-0\<close>.
\<close>

theorem filename_fallback_chain:
  "(fn r = Stored s \<longrightarrow> PackageRef_fn E r = Inr s)
   \<and> (fn r = Unset \<and> url r = Stored u \<and> package_filename E (Channel E u) = Some x \<and> x \<noteq> []
        \<longrightarrow> PackageRef_fn E r = Inr x)
   \<and> (fn r = Unset
          \<and> (url r = Unset
               \<or> url r = Stored u
                  \<and> (package_filename E (Channel E u) = None
                       \<or> package_filename E (Channel E u) = Some []))
        \<longrightarrow> PackageRef_fn E r = Inr (name r @ ''-'' @ version r @ ''-'' @ build r))
   \<and> (fn r = Unset \<longrightarrow> (\<exists>f. PackageRef_fn E r = Inr f \<and> f \<noteq> []))
   \<and> (fn r = Unset \<and> url r = Unset \<and> name r = ''numpy'' \<and> version r = ''1.2''
          \<and> build r = ''0''
        \<longrightarrow> PackageRef_fn E r = Inr ''numpy-1.2-0'')"
proof -
  have syn: "fn r = Unset
          \<and> (url r = Unset
               \<or> url r = Stored u
                  \<and> (package_filename E (Channel E u) = None
                       \<or> package_filename E (Channel E u) = Some []))
        \<longrightarrow> PackageRef_fn E r = Inr (name r @ ''-'' @ version r @ ''-'' @ build r)"
    using fn_synthesized [of r E] by blast
  have ex: "fn r = Unset \<and> url r = Unset \<and> name r = ''numpy'' \<and> version r = ''1.2''
          \<and> build r = ''0''
        \<longrightarrow> PackageRef_fn E r = Inr ''numpy-1.2-0''"
    using fn_synthesized [of r E] by auto
  show ?thesis
    using fn_stored [of r s E] fn_from_url [of r u E x] fn_derived_nonempty [of r E] syn ex
    by blast
qed

theorem filename_fallback_chain_witness:
  "PackageRef_fn example_collaborators example_record = Inr ''numpy-1.2-0''
   \<and> PackageRef_fn example_collaborators
       (example_record\<lparr>url := Stored (Some ''https://repo/linux-64/foo-1.0-0.tar.bz2'')\<rparr>)
     = Inr ''foo-1.0-0.tar.bz2''
   \<and> PackageRef_fn example_collaborators
       (example_record\<lparr>url := Stored (Some ''https://repo/index.html'')\<rparr>)
     = Inr ''numpy-1.2-0''
   \<and> PackageRef_fn example_collaborators (example_record\<lparr>fn := Stored ''n.tar.bz2''\<rparr>)
     = Inr ''n.tar.bz2''"
proof -
  let ?E = example_collaborators
  let ?u = "''https://repo/linux-64/foo-1.0-0.tar.bz2''"
  let ?v = "''https://repo/index.html''"
  let ?r1 = "example_record\<lparr>url := Stored (Some ?u)\<rparr>"
  let ?r2 = "example_record\<lparr>url := Stored (Some ?v)\<rparr>"
  let ?r3 = "example_record\<lparr>fn := Stored ''n.tar.bz2''\<rparr>"
  have h0: "fn example_record = Unset \<and> url example_record = Unset
      \<and> name example_record = ''numpy'' \<and> version example_record = ''1.2''
      \<and> build example_record = ''0''"
    by (simp add: example_record_def)
  have h1: "fn ?r1 = Unset \<and> url ?r1 = Stored (Some ?u)
      \<and> package_filename ?E (Channel ?E (Some ?u)) = Some ''foo-1.0-0.tar.bz2''
      \<and> ''foo-1.0-0.tar.bz2'' \<noteq> []"
    by (simp add: example_record_def example_collaborators_def url_Channel_foo)
  have v: "url_Channel (Some ?v) = \<lparr>uc_name = ?v, uc_subdir = None, uc_filename = None\<rparr>"
    by (simp add: url_Channel_def ends_with_def)
  have h2: "fn ?r2 = Unset \<and> url ?r2 = Stored (Some ?v)
      \<and> package_filename ?E (Channel ?E (Some ?v)) = None"
    by (simp add: example_record_def example_collaborators_def v)
  have n2: "name ?r2 @ ''-'' @ version ?r2 @ ''-'' @ build ?r2 = ''numpy-1.2-0''"
    by (simp add: example_record_def)
  have h3: "fn ?r3 = Stored ''n.tar.bz2''"
    by simp
  have "PackageRef_fn ?E example_record = Inr ''numpy-1.2-0''"
    using h0 filename_fallback_chain [of example_record _ ?E] by blast
  moreover have "PackageRef_fn ?E ?r1 = Inr ''foo-1.0-0.tar.bz2''"
    using h1 filename_fallback_chain [of ?r1 _ ?E "Some ?u" "''foo-1.0-0.tar.bz2''"] by blast
  moreover have "PackageRef_fn ?E ?r2 = Inr ''numpy-1.2-0''"
    using h2 n2 filename_fallback_chain [of ?r2 _ ?E "Some ?v"] by metis
  moreover have "PackageRef_fn ?E ?r3 = Inr ''n.tar.bz2''"
    using h3 filename_fallback_chain [of ?r3 "''n.tar.bz2''" ?E] by blast
  ultimately show ?thesis
    by blast
qed

text \<open>
  The statement of the spec fails where the empty text was stored as the filename: line 158
  returns it, and the assertion of line 167 is not reached.
\<close>

theorem filename_stored_empty_counterexample:
  "name (example_record\<lparr>fn := Stored []\<rparr>) = ''numpy''
   \<and> version (example_record\<lparr>fn := Stored []\<rparr>) = ''1.2''
   \<and> build (example_record\<lparr>fn := Stored []\<rparr>) = ''0''
   \<and> PackageRef_fn example_collaborators (example_record\<lparr>fn := Stored []\<rparr>) = Inr []"
  by (simp add: example_record_def PackageRef_fn_def FilenameField_get_def)

section \<open>Properties of feature sets\<close>

lemma FeaturesField_sequence:
  "FeaturesField_box (FSeq xs) = Inr (FSeq xs)
   \<and> FeaturesField_dump (FSeq xs) = join '' '' xs
   \<and> FeaturesField_dump (FSeq []) = []"
  by (simp add: FeaturesField_box_def ListField_box_def FeaturesField_dump_def)

text \<open>
  C5. The spec says that the text \<^verbatim>\<open>a, b c\<close> is normalized to the three features a,
  b, c and serialized to \<^verbatim>\<open>a b c\<close>. The code replaces the space after the comma by a
  second comma and splits at every comma, so the stored sequence has an empty feature
  between a and b, and its serialization has two spaces there.
\<close>

theorem FeaturesField_box_adjacent_separators:
  "FeaturesField_box (FStr ''a, b c'') = Inr (FSeq [''a'', [], ''b'', ''c''])
   \<and> FeaturesField_box (FStr ''a, b c'') \<noteq> Inr (FSeq [''a'', ''b'', ''c''])
   \<and> FeaturesField_dump (FSeq [''a'', [], ''b'', ''c'']) = ''a  b c''
   \<and> FeaturesField_dump (FSeq [''a'', [], ''b'', ''c'']) \<noteq> ''a b c''"
  by (simp add: FeaturesField_box_def ListField_box_def FeaturesField_dump_def
      replace_char_def)

section \<open>Properties of link types\<close>

lemma lower_char_cases: "lower_char c = c \<or> lower_char c \<in> set ascii_lowercase"
proof (cases "map_of (zip ascii_uppercase ascii_lowercase) c")
  case None
  then show ?thesis by (simp add: lower_char_def)
next
  case (Some d)
  then have "(c, d) \<in> set (zip ascii_uppercase ascii_lowercase)"
    by (rule map_of_SomeD)
  then have "d \<in> set ascii_lowercase"
    by (rule set_zip_rightD)
  moreover from Some have "lower_char c = d"
    by (simp only: lower_char_def option.case)
  ultimately show ?thesis by (simp only: simp_thms)
qed

lemma hyphen_not_lowercase: "CHR ''-'' \<notin> set ascii_lowercase"
  by (simp add: ascii_lowercase_def)

lemma underscore_not_lowercase: "CHR ''_'' \<notin> set ascii_lowercase"
  by (simp add: ascii_lowercase_def)

lemma lower_char_keeps:
  assumes "x \<notin> set ascii_lowercase" and "c \<noteq> x"
  shows "lower_char c \<noteq> x"
proof
  assume e: "lower_char c = x"
  from lower_char_cases [of c] show False
  proof
    assume "lower_char c = c"
    with e assms(2) show False by simp
  next
    assume "lower_char c \<in> set ascii_lowercase"
    with e assms(1) show False by simp
  qed
qed

lemma set_replace_char_Nil: "set (replace_char a [] s) = set s - {a}"
  by (induction s) (simp_all add: replace_char_def insert_Diff_if)

lemma link_text_clean: "CHR ''-'' \<notin> set (link_text t) \<and> CHR ''_'' \<notin> set (link_text t)"
proof -
  let ?s = "replace_char CHR ''_'' [] (replace_char CHR ''-'' [] t)"
  have s: "CHR ''-'' \<notin> set ?s" "CHR ''_'' \<notin> set ?s"
    by (simp_all only: set_replace_char_Nil) simp_all
  have eq: "set (link_text t) = lower_char ` set ?s"
    by (simp only: link_text_def lower_def set_map)
  have a: "CHR ''-'' \<notin> lower_char ` set ?s"
  proof
    assume "CHR ''-'' \<in> lower_char ` set ?s"
    then obtain x where x: "x \<in> set ?s" and e: "CHR ''-'' = lower_char x"
      by (rule imageE)
    from x s(1) have "x \<noteq> CHR ''-''"
      by auto
    then have "lower_char x \<noteq> CHR ''-''"
      by (rule lower_char_keeps [OF hyphen_not_lowercase])
    with e show False
      by simp
  qed
  have b: "CHR ''_'' \<notin> lower_char ` set ?s"
  proof
    assume "CHR ''_'' \<in> lower_char ` set ?s"
    then obtain x where x: "x \<in> set ?s" and e: "CHR ''_'' = lower_char x"
      by (rule imageE)
    from x s(2) have "x \<noteq> CHR ''_''"
      by auto
    then have "lower_char x \<noteq> CHR ''_''"
      by (rule lower_char_keeps [OF underscore_not_lowercase])
    with e show False
      by simp
  qed
  from a b show ?thesis
    by (simp only: eq simp_thms)
qed

lemma replace_char_Nil_filter: "replace_char a [] s = filter (\<lambda>c. c \<noteq> a) s"
  by (induction s) (simp_all add: replace_char_def)

lemma link_text_examples:
  "link_text ''hard-link'' = ''hardlink''"
  "link_text ''hard_link'' = ''hardlink''"
  "link_text ''HARDLINK'' = ''hardlink''"
  "link_text ''hard'' = ''hard''"
  "link_text ''soft'' = ''soft''"
  by (simp_all add: link_text_def lower_def lower_char_def replace_char_def
      ascii_uppercase_def ascii_lowercase_def)

lemma LinkTypeField_box_text:
  "LinkTypeField_box B h s (LStr t) =
     B (if link_text t = ''hard'' then LMember h
        else if link_text t = ''soft'' then LMember s
        else LStr (link_text t))"
  by (simp add: LinkTypeField_box_def Let_def)

text \<open>
  C8. A text given to the link-type field has its hyphens and underscores removed and
  is put in lower case; \<^verbatim>\<open>hard\<close> becomes the hardlink member and \<^verbatim>\<open>soft\<close> the
  softlink member; the result goes to the enum matching of the field framework, whose
  answer, a member or an error, is the answer of the field. So \<^verbatim>\<open>hard-link\<close>,
  \<^verbatim>\<open>hard_link\<close> and \<^verbatim>\<open>HARDLINK\<close> are all matched as \<^verbatim>\<open>hardlink\<close>, and give the
  hardlink member when the matching knows that spelling; a normalized text that the
  matching refuses fails with the matching's error. A value that is no text goes to
  the matching unchanged.
\<close>

theorem LinkTypeField_box_normalizes:
  "(link_text t = ''hard'' \<longrightarrow> LinkTypeField_box B h s (LStr t) = B (LMember h))
   \<and> (link_text t = ''soft'' \<longrightarrow> LinkTypeField_box B h s (LStr t) = B (LMember s))
   \<and> (link_text t \<noteq> ''hard'' \<and> link_text t \<noteq> ''soft''
        \<longrightarrow> LinkTypeField_box B h s (LStr t) = B (LStr (link_text t)))
   \<and> CHR ''-'' \<notin> set (link_text t) \<and> CHR ''_'' \<notin> set (link_text t)
   \<and> link_text t = lower (filter (\<lambda>c. c \<noteq> CHR ''-'' \<and> c \<noteq> CHR ''_'') t)
   \<and> LinkTypeField_box B h s (LStr ''hard-link'') = B (LStr ''hardlink'')
   \<and> LinkTypeField_box B h s (LStr ''hard_link'') = B (LStr ''hardlink'')
   \<and> LinkTypeField_box B h s (LStr ''HARDLINK'') = B (LStr ''hardlink'')
   \<and> (B (LStr ''hardlink'') = Inr (Some h)
        \<longrightarrow> LinkTypeField_box B h s (LStr ''hard-link'') = Inr (Some h)
          \<and> LinkTypeField_box B h s (LStr ''hard_link'') = Inr (Some h)
          \<and> LinkTypeField_box B h s (LStr ''HARDLINK'') = Inr (Some h))
   \<and> LinkTypeField_box B h s (LStr ''hard'') = B (LMember h)
   \<and> LinkTypeField_box B h s (LStr ''soft'') = B (LMember s)
   \<and> (link_text t \<noteq> ''hard'' \<and> link_text t \<noteq> ''soft'' \<and> B (LStr (link_text t)) = Inl e
        \<longrightarrow> LinkTypeField_box B h s (LStr t) = Inl e)
   \<and> LinkTypeField_box B h s (LMember m) = B (LMember m)
   \<and> LinkTypeField_box B h s LNone = B LNone
   \<and> LinkTypeField_box B h s (LInt n) = B (LInt n)"
proof -
  have filt: "link_text t = lower (filter (\<lambda>c. c \<noteq> CHR ''-'' \<and> c \<noteq> CHR ''_'') t)"
    by (simp add: link_text_def replace_char_Nil_filter)
  have ex: "LinkTypeField_box B h s (LStr ''hard-link'') = B (LStr ''hardlink'')"
    "LinkTypeField_box B h s (LStr ''hard_link'') = B (LStr ''hardlink'')"
    "LinkTypeField_box B h s (LStr ''HARDLINK'') = B (LStr ''hardlink'')"
    "LinkTypeField_box B h s (LStr ''hard'') = B (LMember h)"
    "LinkTypeField_box B h s (LStr ''soft'') = B (LMember s)"
    by (simp_all add: LinkTypeField_box_text link_text_examples)
  have other: "LinkTypeField_box B h s (LMember m) = B (LMember m)"
    "LinkTypeField_box B h s LNone = B LNone"
    "LinkTypeField_box B h s (LInt n) = B (LInt n)"
    by (simp_all add: LinkTypeField_box_def)
  have cases3: "link_text t = ''hard'' \<longrightarrow> LinkTypeField_box B h s (LStr t) = B (LMember h)"
    "link_text t = ''soft'' \<longrightarrow> LinkTypeField_box B h s (LStr t) = B (LMember s)"
    "link_text t \<noteq> ''hard'' \<and> link_text t \<noteq> ''soft''
        \<longrightarrow> LinkTypeField_box B h s (LStr t) = B (LStr (link_text t))"
    by (simp_all add: LinkTypeField_box_text)
  have fail: "link_text t \<noteq> ''hard'' \<and> link_text t \<noteq> ''soft''
        \<and> B (LStr (link_text t)) = Inl e
        \<longrightarrow> LinkTypeField_box B h s (LStr t) = Inl e"
    by (simp add: LinkTypeField_box_text)
  have three: "B (LStr ''hardlink'') = Inr (Some h)
        \<longrightarrow> LinkTypeField_box B h s (LStr ''hard-link'') = Inr (Some h)
          \<and> LinkTypeField_box B h s (LStr ''hard_link'') = Inr (Some h)
          \<and> LinkTypeField_box B h s (LStr ''HARDLINK'') = Inr (Some h)"
    by (simp add: ex)
  from cases3 link_text_clean [of t] filt ex(1-3) three ex(4-5) fail other show ?thesis
    by (intro conjI) (rule conjunct1, assumption | rule conjunct2, assumption | assumption)+
qed

text \<open>
  With the members and the strict matching of the enum: the three spellings and
  \<^verbatim>\<open>hard\<close> give the hardlink member, \<^verbatim>\<open>Soft\<close> the softlink member, and an unknown
  spelling fails with the validation error.
\<close>

theorem LinkTypeField_box_normalizes_witness:
  "LinkTypeField_box strict_enum_box hardlink softlink (LStr ''hard-link'') = Inr (Some hardlink)
   \<and> LinkTypeField_box strict_enum_box hardlink softlink (LStr ''hard_link'') = Inr (Some hardlink)
   \<and> LinkTypeField_box strict_enum_box hardlink softlink (LStr ''HARDLINK'') = Inr (Some hardlink)
   \<and> LinkTypeField_box strict_enum_box hardlink softlink (LStr ''hard'') = Inr (Some hardlink)
   \<and> LinkTypeField_box strict_enum_box hardlink softlink (LStr ''Soft'') = Inr (Some softlink)
   \<and> LinkTypeField_box strict_enum_box hardlink softlink (LStr ''sym-link'') = Inl ValidationError"
proof -
  let ?B = strict_enum_box
  note t1 = LinkTypeField_box_normalizes [of "''Soft''" ?B hardlink softlink ValidationError]
  note t2 = LinkTypeField_box_normalizes [of "''sym-link''" ?B hardlink softlink ValidationError]
  have h1: "?B (LStr ''hardlink'') = Inr (Some hardlink)"
    by (simp add: strict_enum_box_def LinkType_members_def)
  have h2: "link_text ''Soft'' = ''soft''"
    by (simp add: link_text_def lower_def lower_char_def replace_char_def
        ascii_uppercase_def ascii_lowercase_def)
  have h3: "link_text ''sym-link'' = ''symlink''"
    by (simp add: link_text_def lower_def lower_char_def replace_char_def
        ascii_uppercase_def ascii_lowercase_def)
  have h4: "link_text ''sym-link'' \<noteq> ''hard'' \<and> link_text ''sym-link'' \<noteq> ''soft''
      \<and> ?B (LStr (link_text ''sym-link'')) = Inl ValidationError"
    by (simp add: h3 strict_enum_box_def LinkType_members_def)
  have m: "?B (LMember hardlink) = Inr (Some hardlink)"
    "?B (LMember softlink) = Inr (Some softlink)"
    by (simp_all add: strict_enum_box_def)
  from t1 h1 have "LinkTypeField_box ?B hardlink softlink (LStr ''hard-link'') = Inr (Some hardlink)
      \<and> LinkTypeField_box ?B hardlink softlink (LStr ''hard_link'') = Inr (Some hardlink)
      \<and> LinkTypeField_box ?B hardlink softlink (LStr ''HARDLINK'') = Inr (Some hardlink)"
    by blast
  moreover from t1 m(1) have "LinkTypeField_box ?B hardlink softlink (LStr ''hard'')
      = Inr (Some hardlink)"
    by simp
  moreover from t1 h2 m(2) have "LinkTypeField_box ?B hardlink softlink (LStr ''Soft'')
      = Inr (Some softlink)"
    by simp
  moreover from t2 h4 have "LinkTypeField_box ?B hardlink softlink (LStr ''sym-link'')
      = Inl ValidationError"
    by blast
  ultimately show ?thesis
    by blast
qed

section \<open>Properties of the dependency merge\<close>






























end
